theory Spec2Isabelle
  imports Complex_Main "HOL-Library.Sublist"
begin

section \<open>Black-Scholes sensitivities of \<open>assignment.py\<close>\<close>

text \<open>
  The repository is one Python function, \<open>calculate_greeks(option_type, S, K, T, sigma, r)\<close>,
  which validates five numbers, derives \<open>d1\<close> and \<open>d2\<close> and returns a dictionary with the
  keys Delta, Gamma, Theta and Vega.

  Numbers are modelled as mathematical reals (the specification's data model speaks of real
  numbers): rounding, overflow and the special values of IEEE-754 doubles are outside this
  model. What Python raises on real arguments is inside it: \<open>math.log\<close> of a non-positive
  number and \<open>math.sqrt\<close> of a negative one raise \<open>ValueError\<close>, and division by zero raises
  \<open>ZeroDivisionError\<close>. Every raise is a branch \<open>Inl\<close> of the result.

  A second copy of the function, \<open>calculate_greeks_double\<close>, adds the one range check that
  raises on doubles, the \<open>OverflowError\<close> of \<open>sigma ** 2\<close>; it is used where a claim speaks
  of the finiteness of the results.
\<close>

subsection \<open>Errors and the result\<close>

text \<open>
  Both \<open>raise\<close> statements of the source raise \<open>ValueError\<close>; they differ in the message only,
  so the message is part of the error value. \<open>OverflowError\<close> is what the power of line 24
  raises on doubles (see below).
\<close>

datatype error = ValueError string | ZeroDivisionError | OverflowError

record greeks =
  Delta :: real
  Gamma :: real
  Theta :: real
  Vega :: real

definition bind_err :: "error + 'a \<Rightarrow> ('a \<Rightarrow> error + 'b) \<Rightarrow> error + 'b" where
  "bind_err m f = (case m of Inl e \<Rightarrow> Inl e | Inr x \<Rightarrow> f x)"

subsection \<open>Library functions used by the source\<close>

definition math_log :: "real \<Rightarrow> error + real" where
  "math_log x = (if x \<le> 0 then Inl (ValueError ''math domain error'') else Inr (ln x))"

definition math_sqrt :: "real \<Rightarrow> error + real" where
  "math_sqrt x = (if x < 0 then Inl (ValueError ''math domain error'') else Inr (sqrt x))"

definition math_exp :: "real \<Rightarrow> real" where
  "math_exp x = exp x"

definition truediv :: "real \<Rightarrow> real \<Rightarrow> error + real" where
  "truediv a b = (if b = 0 then Inl ZeroDivisionError else Inr (a / b))"

text \<open>
  \<open>str.lower\<close>. A string is a list of bytes here; the letters \<open>A\<close> to \<open>Z\<close> go to \<open>a\<close> to
  \<open>z\<close> and every other byte stays. Python lowers non-ASCII letters too, but no character
  outside \<open>A\<close> to \<open>Z\<close> is lowered to one of the letters of \<open>call\<close> or \<open>put\<close>, and the source
  only compares the lowered string with these two words.
\<close>

definition lower_char :: "char \<Rightarrow> char" where
  "lower_char c =
     (case map_of (zip ''ABCDEFGHIJKLMNOPQRSTUVWXYZ'' ''abcdefghijklmnopqrstuvwxyz'') c of
        Some d \<Rightarrow> d
      | None \<Rightarrow> c)"

definition lower :: "string \<Rightarrow> string" where
  "lower s = map lower_char s"

text \<open>
  Modelled from the spec: \<open>scipy.stats.norm\<close> is an external library, not part of the
  repository. The specification takes \<open>norm.pdf\<close> to be the standard normal density
  \<open>exp (- x\<^sup>2 / 2) / sqrt (2 pi)\<close> and \<open>norm.cdf\<close> to be the standard normal distribution
  function \<open>(1 + erf (x / sqrt 2)) / 2\<close>. The error function is given by its power series,
  which converges for every real argument.
\<close>

definition erf_coeff :: "nat \<Rightarrow> real" where
  "erf_coeff n = (- 1) ^ n / (fact n * real (2 * n + 1))"

definition erf :: "real \<Rightarrow> real" where
  "erf x = 2 / sqrt pi * (\<Sum>n. erf_coeff n * x ^ (2 * n + 1))"

definition norm_pdf :: "real \<Rightarrow> real" where
  "norm_pdf x = exp (- (x\<^sup>2) / 2) / sqrt (2 * pi)"

definition norm_cdf :: "real \<Rightarrow> real" where
  "norm_cdf x = (1 + erf (x / sqrt 2)) / 2"

subsection \<open>The function \<open>calculate_greeks\<close>\<close>

text \<open>Line 24: \<open>d1 = (math.log(S / K) + (r + 0.5 * sigma ** 2) * T) / (sigma * math.sqrt(T))\<close>.\<close>

definition d1 :: "real \<Rightarrow> real \<Rightarrow> real \<Rightarrow> real \<Rightarrow> real \<Rightarrow> error + real" where
  "d1 S K T sigma r =
     bind_err (truediv S K) (\<lambda>q.
     bind_err (math_log q) (\<lambda>l.
     bind_err (math_sqrt T) (\<lambda>sT.
       truediv (l + (r + 0.5 * sigma ^ 2) * T) (sigma * sT))))"

text \<open>Line 25: \<open>d2 = d1 - sigma * math.sqrt(T)\<close>.\<close>

definition d2 :: "real \<Rightarrow> real \<Rightarrow> real \<Rightarrow> error + real" where
  "d2 d1v T sigma = bind_err (math_sqrt T) (\<lambda>sT. Inr (d1v - sigma * sT))"

text \<open>Lines 27 to 34: the branch on the lowered option type, which also rejects other types.\<close>

definition delta :: "string \<Rightarrow> real \<Rightarrow> real \<Rightarrow> real \<Rightarrow> error + real" where
  "delta option_type d1v T r =
     (if lower option_type = ''call'' then Inr (math_exp (- r * T) * norm_cdf d1v)
      else if lower option_type = ''put'' then Inr (- math_exp (- r * T) * norm_cdf (- d1v))
      else Inl (ValueError ''Invalid option type. Please choose 'Call' or 'Put'.''))"

text \<open>Line 37.\<close>

definition gamma :: "real \<Rightarrow> real \<Rightarrow> real \<Rightarrow> real \<Rightarrow> real \<Rightarrow> error + real" where
  "gamma d1v S T sigma r =
     bind_err (math_sqrt T) (\<lambda>sT.
       truediv (math_exp (- r * T) * norm_pdf d1v) (S * sigma * sT))"

text \<open>Lines 40 to 45. The second test is the same comparison with \<open>call\<close>; every other
  type that reaches it takes the \<open>else\<close> branch.\<close>

definition theta :: "string \<Rightarrow> real \<Rightarrow> real \<Rightarrow> real \<Rightarrow> real \<Rightarrow> real \<Rightarrow> real \<Rightarrow> real \<Rightarrow> error + real" where
  "theta option_type d1v d2v S K T sigma r =
     bind_err (math_sqrt T) (\<lambda>sT.
     bind_err (truediv (- (S * norm_pdf d1v * sigma * math_exp (- r * T))) (2 * sT)) (\<lambda>q.
       let theta0 = q - r * K * math_exp (- r * T) * norm_cdf d2v
       in if lower option_type = ''call'' then Inr (theta0 + r * S * norm_cdf d1v)
          else Inr (theta0 + r * S * norm_cdf (- d1v))))"

text \<open>Line 48.\<close>

definition vega :: "real \<Rightarrow> real \<Rightarrow> real \<Rightarrow> error + real" where
  "vega d1v S T = bind_err (math_sqrt T) (\<lambda>sT. Inr (S * sT * norm_pdf d1v))"

definition calculate_greeks ::
  "string \<Rightarrow> real \<Rightarrow> real \<Rightarrow> real \<Rightarrow> real \<Rightarrow> real \<Rightarrow> error + greeks" where
  "calculate_greeks option_type S K T sigma r =
     (if S \<le> 0 \<or> K \<le> 0 \<or> T \<le> 0 \<or> sigma \<le> 0 \<or> r < 0
      then Inl (ValueError ''All input values must be positive.'')
      else
        bind_err (d1 S K T sigma r) (\<lambda>d1v.
        bind_err (d2 d1v T sigma) (\<lambda>d2v.
        bind_err (delta option_type d1v T r) (\<lambda>deltav.
        bind_err (gamma d1v S T sigma r) (\<lambda>gammav.
        bind_err (theta option_type d1v d2v S K T sigma r) (\<lambda>thetav.
        bind_err (vega d1v S T) (\<lambda>vegav.
          Inr \<lparr>Delta = deltav, Gamma = gammav, Theta = thetav, Vega = vegav\<rparr>)))))))"

subsection \<open>The power of line 24 on doubles\<close>

text \<open>
  The numbers of the source are IEEE-754 doubles. On numbers that pass the validation,
  \<open>sigma ** 2\<close> is the one operation of the function that raises when its result is too
  large: the power of two Python floats raises \<open>OverflowError\<close> where the result, rounded to a
  double, is infinite, that is where its absolute value is at least \<open>2 ^ 1024 - 2 ^ 970\<close>
  (half a unit in the last place above the largest double). Division and multiplication
  return an infinity instead, and \<open>math.exp\<close> is only called on a non-positive argument.

  \<open>calculate_greeks_double\<close> is \<open>calculate_greeks\<close> with this one check written out.
  Rounding, underflow and the infinities of the other operations remain outside of it.
\<close>

definition double_overflows :: "real \<Rightarrow> bool" where
  "double_overflows x \<longleftrightarrow> 2 ^ 1024 - 2 ^ 970 \<le> \<bar>x\<bar>"

definition float_pow :: "real \<Rightarrow> nat \<Rightarrow> error + real" where
  "float_pow x n = (if double_overflows (x ^ n) then Inl OverflowError else Inr (x ^ n))"

definition d1_double :: "real \<Rightarrow> real \<Rightarrow> real \<Rightarrow> real \<Rightarrow> real \<Rightarrow> error + real" where
  "d1_double S K T sigma r =
     bind_err (truediv S K) (\<lambda>q.
     bind_err (math_log q) (\<lambda>l.
     bind_err (float_pow sigma 2) (\<lambda>p.
     bind_err (math_sqrt T) (\<lambda>sT.
       truediv (l + (r + 0.5 * p) * T) (sigma * sT)))))"

definition calculate_greeks_double ::
  "string \<Rightarrow> real \<Rightarrow> real \<Rightarrow> real \<Rightarrow> real \<Rightarrow> real \<Rightarrow> error + greeks" where
  "calculate_greeks_double option_type S K T sigma r =
     (if S \<le> 0 \<or> K \<le> 0 \<or> T \<le> 0 \<or> sigma \<le> 0 \<or> r < 0
      then Inl (ValueError ''All input values must be positive.'')
      else
        bind_err (d1_double S K T sigma r) (\<lambda>d1v.
        bind_err (d2 d1v T sigma) (\<lambda>d2v.
        bind_err (delta option_type d1v T r) (\<lambda>deltav.
        bind_err (gamma d1v S T sigma r) (\<lambda>gammav.
        bind_err (theta option_type d1v d2v S K T sigma r) (\<lambda>thetav.
        bind_err (vega d1v S T) (\<lambda>vegav.
          Inr \<lparr>Delta = deltav, Gamma = gammav, Theta = thetav, Vega = vegav\<rparr>)))))))"

subsection \<open>The quantities of the specification\<close>

text \<open>
  The two errors of the specification are the two \<open>ValueError\<close>s of the source, told apart
  by their messages.
\<close>

definition InvalidParameter :: error where
  "InvalidParameter = ValueError ''All input values must be positive.''"

definition InvalidOptionType :: error where
  "InvalidOptionType = ValueError ''Invalid option type. Please choose 'Call' or 'Put'.''"

text \<open>The numeric constraints, as the specification writes them.\<close>

definition valid :: "real \<Rightarrow> real \<Rightarrow> real \<Rightarrow> real \<Rightarrow> real \<Rightarrow> bool" where
  "valid S K T sigma r \<longleftrightarrow> 0 < S \<and> 0 < K \<and> 0 < T \<and> 0 < sigma \<and> 0 \<le> r"

text \<open>The derived quantities \<open>d1\<close> and \<open>d2\<close> and the common term of Theta, in the
  specification's words.\<close>

definition spec_d1 :: "real \<Rightarrow> real \<Rightarrow> real \<Rightarrow> real \<Rightarrow> real \<Rightarrow> real" where
  "spec_d1 S K T sigma r = (ln (S / K) + (r + 0.5 * sigma\<^sup>2) * T) / (sigma * sqrt T)"

definition spec_d2 :: "real \<Rightarrow> real \<Rightarrow> real \<Rightarrow> real \<Rightarrow> real \<Rightarrow> real" where
  "spec_d2 S K T sigma r = spec_d1 S K T sigma r - sigma * sqrt T"

definition T_common :: "real \<Rightarrow> real \<Rightarrow> real \<Rightarrow> real \<Rightarrow> real \<Rightarrow> real" where
  "T_common S K T sigma r =
     - (S * norm_pdf (spec_d1 S K T sigma r) * sigma * exp (- r * T)) / (2 * sqrt T)
     - r * K * exp (- r * T) * norm_cdf (spec_d2 S K T sigma r)"

text \<open>The record that the source returns on a valid input, field by field.\<close>

definition greeks_of :: "bool \<Rightarrow> real \<Rightarrow> real \<Rightarrow> real \<Rightarrow> real \<Rightarrow> real \<Rightarrow> greeks" where
  "greeks_of is_call S K T sigma r =
     \<lparr>Delta = (if is_call then exp (- r * T) * norm_cdf (spec_d1 S K T sigma r)
               else - exp (- r * T) * norm_cdf (- spec_d1 S K T sigma r)),
      Gamma = exp (- r * T) * norm_pdf (spec_d1 S K T sigma r) / (S * sigma * sqrt T),
      Theta = T_common S K T sigma r
              + r * S * norm_cdf (if is_call then spec_d1 S K T sigma r
                                  else - spec_d1 S K T sigma r),
      Vega = S * sqrt T * norm_pdf (spec_d1 S K T sigma r)\<rparr>"

subsection \<open>Evaluation of the source on valid and on invalid numbers\<close>

lemma lower_call [simp]: "lower ''call'' = ''call''"
  by (simp add: lower_def lower_char_def)

lemma lower_put [simp]: "lower ''put'' = ''put''"
  by (simp add: lower_def lower_char_def)

lemma bind_err_Inr [simp]: "bind_err (Inr x) f = f x"
  by (simp add: bind_err_def)

lemma bind_err_Inl [simp]: "bind_err (Inl e) f = Inl e"
  by (simp add: bind_err_def)

lemma d1_valid:
  assumes "valid S K T sigma r"
  shows "d1 S K T sigma r = Inr (spec_d1 S K T sigma r)"
proof -
  from assms have pos: "0 < S" "0 < K" "0 < T" "0 < sigma"
    by (simp_all add: valid_def)
  have quot: "truediv S K = Inr (S / K)"
    using pos by (simp add: truediv_def)
  have "0 < S / K"
    using pos by (rule_tac divide_pos_pos)
  then have log: "math_log (S / K) = Inr (ln (S / K))"
    unfolding math_log_def by (simp only: not_le [symmetric] if_False)
  have root: "math_sqrt T = Inr (sqrt T)"
    using pos by (simp add: math_sqrt_def)
  have "sigma * sqrt T \<noteq> 0"
    using pos by simp
  then have "truediv x (sigma * sqrt T) = Inr (x / (sigma * sqrt T))" for x
    unfolding truediv_def by (simp only: if_False)
  then show ?thesis
    by (simp add: d1_def spec_d1_def quot log root)
qed

lemma d2_valid:
  assumes "valid S K T sigma r"
  shows "d2 (spec_d1 S K T sigma r) T sigma = Inr (spec_d2 S K T sigma r)"
  using assms by (simp add: d2_def spec_d2_def bind_err_def math_sqrt_def valid_def)

lemma gamma_valid:
  assumes "valid S K T sigma r"
  shows "gamma x S T sigma r = Inr (exp (- r * T) * norm_pdf x / (S * sigma * sqrt T))"
  using assms
  by (simp add: gamma_def bind_err_def math_sqrt_def truediv_def math_exp_def valid_def)

lemma vega_valid:
  assumes "valid S K T sigma r"
  shows "vega x S T = Inr (S * sqrt T * norm_pdf x)"
  using assms by (simp add: vega_def bind_err_def math_sqrt_def valid_def)

lemma theta_valid:
  assumes "valid S K T sigma r"
  shows "theta ot (spec_d1 S K T sigma r) (spec_d2 S K T sigma r) S K T sigma r =
         Inr (T_common S K T sigma r
              + r * S * norm_cdf (if lower ot = ''call'' then spec_d1 S K T sigma r
                                  else - spec_d1 S K T sigma r))"
  using assms
  by (simp add: theta_def T_common_def bind_err_def math_sqrt_def truediv_def math_exp_def
      valid_def Let_def)

lemma calculate_greeks_valid:
  assumes "valid S K T sigma r"
  shows "calculate_greeks ot S K T sigma r =
         (if lower ot = ''call'' then Inr (greeks_of True S K T sigma r)
          else if lower ot = ''put'' then Inr (greeks_of False S K T sigma r)
          else Inl InvalidOptionType)"
proof -
  from assms have guard: "\<not> (S \<le> 0 \<or> K \<le> 0 \<or> T \<le> 0 \<or> sigma \<le> 0 \<or> r < 0)"
    by (auto simp add: valid_def)
  show ?thesis
    unfolding calculate_greeks_def
    by (simp only: guard if_False d1_valid [OF assms] d2_valid [OF assms] bind_err_Inr
        gamma_valid [OF assms] vega_valid [OF assms] theta_valid [OF assms])
      (simp add: delta_def greeks_of_def InvalidOptionType_def math_exp_def)
qed

lemma calculate_greeks_invalid:
  assumes "\<not> valid S K T sigma r"
  shows "calculate_greeks ot S K T sigma r = Inl InvalidParameter"
  using assms by (auto simp add: calculate_greeks_def valid_def InvalidParameter_def)

lemma errors_distinct: "InvalidOptionType \<noteq> InvalidParameter"
  by (simp add: InvalidOptionType_def InvalidParameter_def)

subsection \<open>The normal distribution function\<close>

lemma erf_term_bound:
  "norm (erf_coeff n * x ^ (2 * n + 1)) \<le> \<bar>x\<bar> * (inverse (fact n) * (x\<^sup>2) ^ n)"
proof -
  have "norm (erf_coeff n * x ^ (2 * n + 1))
          = \<bar>x\<bar> * (x\<^sup>2) ^ n / (fact n * real (2 * n + 1))"
    by (simp add: erf_coeff_def abs_mult power_abs power_mult power_even_abs)
  also have "\<dots> \<le> \<bar>x\<bar> * (x\<^sup>2) ^ n / (fact n * 1)"
    by (intro divide_left_mono mult_left_mono) (simp_all add: mult_nonneg_nonneg)
  finally show ?thesis
    by (simp add: field_simps)
qed

lemma erf_series_summable: "summable (\<lambda>n. erf_coeff n * x ^ (2 * n + 1))"
proof (rule summable_comparison_test)
  show "\<exists>N. \<forall>n\<ge>N. norm (erf_coeff n * x ^ (2 * n + 1)) \<le> \<bar>x\<bar> * (inverse (fact n) * (x\<^sup>2) ^ n)"
    using erf_term_bound by blast
  show "summable (\<lambda>n. \<bar>x\<bar> * (inverse (fact n) * (x\<^sup>2) ^ n))"
    by (intro summable_mult summable_exp)
qed

lemma erf_odd: "erf (- x) = - erf x"
proof -
  have "(\<Sum>n. erf_coeff n * (- x) ^ (2 * n + 1)) = (\<Sum>n. - (erf_coeff n * x ^ (2 * n + 1)))"
    by simp
  also have "\<dots> = - (\<Sum>n. erf_coeff n * x ^ (2 * n + 1))"
    by (rule suminf_minus) (rule erf_series_summable)
  finally show ?thesis
    by (simp add: erf_def)
qed

lemma norm_cdf_reflect: "norm_cdf (- x) = 1 - norm_cdf x"
  by (simp add: norm_cdf_def erf_odd field_simps)

lemma norm_pdf_pos: "0 < norm_pdf x"
  by (simp add: norm_pdf_def)

lemma exp_cubic_enclosure:
  fixes x :: real
  assumes "\<bar>x\<bar> \<le> 1"
  shows "1 + x + x\<^sup>2 / 2 + x ^ 3 / 6 \<le> exp x"
    and "exp x \<le> 1 + x + x\<^sup>2 / 2 + x ^ 3 / 6 + x ^ 4 / 8"
proof -
  obtain t where t: "\<bar>t\<bar> \<le> \<bar>x\<bar>"
    and ex: "exp x = (\<Sum>m<4. x ^ m / fact m) + exp t / fact 4 * x ^ 4"
    using Maclaurin_exp_le [of x 4] by blast
  have sum: "(\<Sum>m<4. x ^ m / fact m) = 1 + x + x\<^sup>2 / 2 + x ^ 3 / 6"
    by (simp add: eval_nat_numeral)
  have f4: "fact 4 = (24::real)"
    by (simp add: eval_nat_numeral)
  have x4: "0 \<le> x ^ 4"
    by simp
  have "t \<le> 1"
    using t assms by linarith
  then have "exp t \<le> exp 1"
    by simp
  then have et: "exp t \<le> 3"
    using exp_le by linarith
  have et0: "0 \<le> exp t"
    by simp
  have ex': "exp x = 1 + x + x\<^sup>2 / 2 + x ^ 3 / 6 + exp t / 24 * x ^ 4"
    using ex sum f4 by simp
  have lo: "0 \<le> exp t / 24 * x ^ 4"
    using et0 x4 by simp
  have "exp t * x ^ 4 \<le> 3 * x ^ 4"
    using et x4 by (rule mult_right_mono)
  then have hi: "exp t / 24 * x ^ 4 \<le> x ^ 4 / 8"
    by simp
  show "1 + x + x\<^sup>2 / 2 + x ^ 3 / 6 \<le> exp x"
    using lo ex' by linarith
  show "exp x \<le> 1 + x + x\<^sup>2 / 2 + x ^ 3 / 6 + x ^ 4 / 8"
    using hi ex' by linarith
qed

lemma arctan_enclosure:
  fixes x :: real
  assumes "0 \<le> x" "x \<le> 1"
  shows "(\<Sum>k<2 * n. (- 1) ^ k * (1 / real (k * 2 + 1) * x ^ (k * 2 + 1))) \<le> arctan x"
    and "arctan x \<le> (\<Sum>k<2 * n + 1. (- 1) ^ k * (1 / real (k * 2 + 1) * x ^ (k * 2 + 1)))"
proof -
  define a where "a k = 1 / real (k * 2 + 1) * x ^ (k * 2 + 1)" for k
  have series: "arctan x = (\<Sum>k. (- 1) ^ k * a k)"
    unfolding a_def using assms by (intro arctan_series) simp
  have nonneg: "0 \<le> a k" for k
    unfolding a_def using assms by simp
  have decr: "a (Suc k) \<le> a k" for k
  proof -
    have p: "x ^ (Suc k * 2 + 1) \<le> x ^ (k * 2 + 1)"
      using assms by (intro power_decreasing) simp_all
    have c: "1 / real (Suc k * 2 + 1) \<le> 1 / real (k * 2 + 1)"
      by (intro divide_left_mono) simp_all
    show ?thesis
      unfolding a_def using assms by (intro mult_mono p c) simp_all
  qed
  have bound: "a k \<le> inverse (real (Suc k))" for k
  proof -
    have "x ^ (k * 2 + 1) \<le> 1"
      using assms by (intro power_le_one)
    then have "1 / real (k * 2 + 1) * x ^ (k * 2 + 1) \<le> 1 / real (k * 2 + 1) * 1"
      by (intro mult_left_mono) simp_all
    also have "\<dots> \<le> inverse (real (Suc k))"
      by (simp add: field_simps)
    finally show ?thesis
      by (simp add: a_def)
  qed
  have ev_lo: "\<forall>\<^sub>F k in sequentially. 0 \<le> a k"
    using nonneg by (intro always_eventually allI)
  have ev_hi: "\<forall>\<^sub>F k in sequentially. a k \<le> inverse (real (Suc k))"
    using bound by (intro always_eventually allI)
  have null: "a \<longlonglongrightarrow> 0"
    by (rule tendsto_sandwich [OF ev_lo ev_hi tendsto_const LIMSEQ_inverse_real_of_nat])
  show "(\<Sum>k<2 * n. (- 1) ^ k * (1 / real (k * 2 + 1) * x ^ (k * 2 + 1))) \<le> arctan x"
    using summable_Leibniz'(2) [OF null nonneg decr, of n] by (simp add: series a_def)
  show "arctan x \<le> (\<Sum>k<2 * n + 1. (- 1) ^ k * (1 / real (k * 2 + 1) * x ^ (k * 2 + 1)))"
    using summable_Leibniz'(4) [OF null nonneg decr, of n] by (simp add: series a_def)
qed

lemma pi_enclosure: "314159 / 100000 \<le> pi" "pi \<le> 31416 / 10000"
proof -
  have m: "pi = 16 * arctan (1 / 5) - 4 * arctan (1 / 239)"
    using machin by simp
  have l5: "(\<Sum>k<2 * 2. (- 1) ^ k * (1 / real (k * 2 + 1) * (1 / 5) ^ (k * 2 + 1))) \<le> arctan (1 / 5)"
    by (rule arctan_enclosure) simp_all
  have u5: "arctan (1 / 5) \<le> (\<Sum>k<2 * 2 + 1. (- 1) ^ k * (1 / real (k * 2 + 1) * (1 / 5) ^ (k * 2 + 1)))"
    by (rule arctan_enclosure) simp_all
  have l239: "(\<Sum>k<2 * 1. (- 1) ^ k * (1 / real (k * 2 + 1) * (1 / 239) ^ (k * 2 + 1))) \<le> arctan (1 / 239)"
    by (rule arctan_enclosure) simp_all
  have u239: "arctan (1 / 239) \<le> (\<Sum>k<2 * 0 + 1. (- 1) ^ k * (1 / real (k * 2 + 1) * (1 / 239) ^ (k * 2 + 1)))"
    by (rule arctan_enclosure) simp_all
  show "314159 / 100000 \<le> pi"
    using l5 u239 unfolding m by (simp add: eval_nat_numeral)
  show "pi \<le> 31416 / 10000"
    using u5 l239 unfolding m by (simp add: eval_nat_numeral)
qed

lemma norm_cdf_enclosure:
  fixes z :: real
  assumes "0 \<le> z" "z\<^sup>2 \<le> 2"
  shows "1 / 2 + z / sqrt (2 * pi)
           * (\<Sum>k<2 * n. (- 1) ^ k * ((z\<^sup>2 / 2) ^ k / (fact k * real (2 * k + 1))))
         \<le> norm_cdf z"
    and "norm_cdf z
         \<le> 1 / 2 + z / sqrt (2 * pi)
           * (\<Sum>k<2 * n + 1. (- 1) ^ k * ((z\<^sup>2 / 2) ^ k / (fact k * real (2 * k + 1))))"
proof -
  define q where "q = z\<^sup>2 / 2"
  define a where "a k = q ^ k / (fact k * real (2 * k + 1))" for k
  have q: "0 \<le> q" "q \<le> 1"
    using assms by (simp_all add: q_def)
  have nonneg: "0 \<le> a k" for k
    unfolding a_def using q by simp
  have decr: "a (Suc k) \<le> a k" for k
  proof -
    have p: "q ^ Suc k \<le> q ^ k"
      using q by (intro power_decreasing) simp_all
    have "fact k * real (2 * k + 1) \<le> (fact (Suc k) :: real) * real (2 * Suc k + 1)"
      by (intro mult_mono) (simp_all add: fact_mono)
    then have "q ^ Suc k / (fact (Suc k) * real (2 * Suc k + 1))
               \<le> q ^ k / (fact k * real (2 * k + 1))"
      using p q by (intro frac_le) simp_all
    then show ?thesis
      by (simp only: a_def)
  qed
  have bound: "a k \<le> inverse (real (Suc k))" for k
  proof -
    have "q ^ k \<le> 1"
      using q by (intro power_le_one)
    moreover have "real (Suc k) \<le> fact k * real (2 * k + 1)"
    proof -
      have "1 * real (Suc k) \<le> fact k * real (2 * k + 1)"
        by (intro mult_mono) simp_all
      then show ?thesis
        by simp
    qed
    ultimately have "q ^ k / (fact k * real (2 * k + 1)) \<le> 1 / real (Suc k)"
      by (intro frac_le) simp_all
    then show ?thesis
      by (simp only: a_def inverse_eq_divide)
  qed
  have ev_lo: "\<forall>\<^sub>F k in sequentially. 0 \<le> a k"
    using nonneg by (intro always_eventually allI)
  have ev_hi: "\<forall>\<^sub>F k in sequentially. a k \<le> inverse (real (Suc k))"
    using bound by (intro always_eventually allI)
  have null: "a \<longlonglongrightarrow> 0"
    by (rule tendsto_sandwich [OF ev_lo ev_hi tendsto_const LIMSEQ_inverse_real_of_nat])
  define G where "G = (\<Sum>k. (- 1) ^ k * a k)"
  have summ: "summable (\<lambda>k. (- 1) ^ k * a k)"
    by (rule summable_Leibniz'(1) [OF null nonneg decr])
  have G_lo: "(\<Sum>k<2 * n. (- 1) ^ k * a k) \<le> G"
    unfolding G_def by (rule summable_Leibniz'(2) [OF null nonneg decr])
  have G_hi: "G \<le> (\<Sum>k<2 * n + 1. (- 1) ^ k * a k)"
    unfolding G_def by (rule summable_Leibniz'(4) [OF null nonneg decr])
  have sq: "(z / sqrt 2)\<^sup>2 = q"
    by (simp add: q_def power_divide)
  have tm: "erf_coeff k * (z / sqrt 2) ^ (2 * k + 1) = z / sqrt 2 * ((- 1) ^ k * a k)" for k
  proof -
    have "(z / sqrt 2) ^ (2 * k + 1) = (z / sqrt 2) ^ (2 * k) * (z / sqrt 2)"
      by (simp only: power_add power_one_right)
    also have "(z / sqrt 2) ^ (2 * k) = q ^ k"
      by (simp only: power_mult sq)
    finally have pw: "(z / sqrt 2) ^ (2 * k + 1) = q ^ k * (z / sqrt 2)" .
    show ?thesis
      unfolding pw erf_coeff_def a_def by (simp add: field_simps)
  qed
  have "(\<Sum>k. erf_coeff k * (z / sqrt 2) ^ (2 * k + 1)) = z / sqrt 2 * G"
    unfolding G_def by (simp only: tm suminf_mult [OF summ])
  then have "erf (z / sqrt 2) = 2 / sqrt pi * (z / sqrt 2 * G)"
    by (simp add: erf_def)
  then have cdf: "norm_cdf z = 1 / 2 + z / sqrt (2 * pi) * G"
    by (simp add: norm_cdf_def real_sqrt_mult field_simps)
  have c: "0 \<le> z / sqrt (2 * pi)"
    using assms by simp
  show "1 / 2 + z / sqrt (2 * pi)
           * (\<Sum>k<2 * n. (- 1) ^ k * ((z\<^sup>2 / 2) ^ k / (fact k * real (2 * k + 1))))
         \<le> norm_cdf z"
    using mult_left_mono [OF G_lo c] by (simp add: cdf a_def q_def)
  show "norm_cdf z
         \<le> 1 / 2 + z / sqrt (2 * pi)
           * (\<Sum>k<2 * n + 1. (- 1) ^ k * ((z\<^sup>2 / 2) ^ k / (fact k * real (2 * k + 1))))"
    using mult_left_mono [OF G_hi c] by (simp add: cdf a_def q_def)
qed

subsection \<open>Numeric enclosures for the reference scenario\<close>

lemma sqrt_two_pi_enclosure: "250662 / 100000 \<le> sqrt (2 * pi)" "sqrt (2 * pi) \<le> 250664 / 100000"
proof -
  have "(250662 / 100000)\<^sup>2 \<le> 2 * pi"
    using pi_enclosure(1) by (simp add: power2_eq_square)
  then show "250662 / 100000 \<le> sqrt (2 * pi)"
    by (rule real_le_rsqrt)
  have "2 * pi \<le> (250664 / 100000)\<^sup>2"
    using pi_enclosure(2) by (simp add: power2_eq_square)
  then show "sqrt (2 * pi) \<le> 250664 / 100000"
    by (intro real_le_lsqrt) simp_all
qed

lemma exp_discount_enclosure:
  "95122 / 100000 \<le> exp (- (1 / 20) :: real)" "exp (- (1 / 20) :: real) \<le> 95123 / 100000"
  using exp_cubic_enclosure [of "- (1 / 20)"] by (simp_all add: power2_eq_square power3_eq_cube power4_eq_xxxx)

lemma norm_pdf_035: "37523 / 100000 \<le> norm_pdf (7 / 20)" "norm_pdf (7 / 20) \<le> 37525 / 100000"
proof -
  have e: "94058748 / 100000000 \<le> exp (- (49 / 800) :: real)"
    "exp (- (49 / 800) :: real) \<le> 94058925 / 100000000"
    using exp_cubic_enclosure [of "- (49 / 800)"]
    by (simp_all add: power2_eq_square power3_eq_cube power4_eq_xxxx)
  have pdf: "norm_pdf (7 / 20) = exp (- (49 / 800)) / sqrt (2 * pi)"
    by (simp add: norm_pdf_def power2_eq_square)
  have "37523 / 100000 \<le> (94058748 / 100000000) / (250664 / 100000 :: real)"
    by simp
  also have "\<dots> \<le> exp (- (49 / 800)) / sqrt (2 * pi)"
    using e(1) sqrt_two_pi_enclosure(2) by (intro frac_le) simp_all
  finally show "37523 / 100000 \<le> norm_pdf (7 / 20)"
    by (simp only: pdf)
  have "exp (- (49 / 800)) / sqrt (2 * pi) \<le> (94058925 / 100000000) / (250662 / 100000 :: real)"
    using e(2) sqrt_two_pi_enclosure(1) by (intro frac_le) simp_all
  also have "\<dots> \<le> 37525 / 100000"
    by simp
  finally show "norm_pdf (7 / 20) \<le> 37525 / 100000"
    by (simp only: pdf)
qed

lemma inverse_sqrt_two_pi_enclosure:
  "100000 / 250664 \<le> 1 / sqrt (2 * pi)" "1 / sqrt (2 * pi) \<le> 100000 / 250662"
proof -
  have "1 / (250664 / 100000) \<le> 1 / sqrt (2 * pi)"
    using sqrt_two_pi_enclosure(2) by (intro frac_le) simp_all
  then show "100000 / 250664 \<le> 1 / sqrt (2 * pi)"
    by simp
  have "1 / sqrt (2 * pi) \<le> 1 / (250662 / 100000)"
    using sqrt_two_pi_enclosure(1) by (intro frac_le) simp_all
  then show "1 / sqrt (2 * pi) \<le> 100000 / 250662"
    by simp
qed

lemma norm_cdf_035: "63682 / 100000 \<le> norm_cdf (7 / 20)" "norm_cdf (7 / 20) \<le> 63684 / 100000"
proof -
  define c where "c = 1 / sqrt (2 * pi)"
  have c: "100000 / 250664 \<le> c" "c \<le> 100000 / 250662"
    unfolding c_def by (rule inverse_sqrt_two_pi_enclosure)+
  have "1 / 2 + 7 / 20 / sqrt (2 * pi)
          * (\<Sum>k<2 * 2. (- 1) ^ k * (((7 / 20)\<^sup>2 / 2) ^ k / (fact k * real (2 * k + 1))))
        \<le> norm_cdf (7 / 20)"
    by (rule norm_cdf_enclosure) (simp_all add: power2_eq_square)
  then have lo: "1 / 2 + c * (7 / 20 * (1 - 49 / 2400 + (49 / 800)\<^sup>2 / 10 - (49 / 800) ^ 3 / 42))
                 \<le> norm_cdf (7 / 20)"
    by (simp add: eval_nat_numeral c_def)
  have "norm_cdf (7 / 20)
        \<le> 1 / 2 + 7 / 20 / sqrt (2 * pi)
          * (\<Sum>k<2 * 1 + 1. (- 1) ^ k * (((7 / 20)\<^sup>2 / 2) ^ k / (fact k * real (2 * k + 1))))"
    by (rule norm_cdf_enclosure) (simp_all add: power2_eq_square)
  then have hi: "norm_cdf (7 / 20)
                 \<le> 1 / 2 + c * (7 / 20 * (1 - 49 / 2400 + (49 / 800)\<^sup>2 / 10))"
    by (simp add: eval_nat_numeral c_def)
  show "63682 / 100000 \<le> norm_cdf (7 / 20)"
    using lo c(1) by (simp add: power2_eq_square power3_eq_cube)
  show "norm_cdf (7 / 20) \<le> 63684 / 100000"
    using hi c(2) by (simp add: power2_eq_square power3_eq_cube)
qed

lemma norm_cdf_015: "55961 / 100000 \<le> norm_cdf (3 / 20)" "norm_cdf (3 / 20) \<le> 55962 / 100000"
proof -
  define c where "c = 1 / sqrt (2 * pi)"
  have c: "100000 / 250664 \<le> c" "c \<le> 100000 / 250662"
    unfolding c_def by (rule inverse_sqrt_two_pi_enclosure)+
  have "1 / 2 + 3 / 20 / sqrt (2 * pi)
          * (\<Sum>k<2 * 2. (- 1) ^ k * (((3 / 20)\<^sup>2 / 2) ^ k / (fact k * real (2 * k + 1))))
        \<le> norm_cdf (3 / 20)"
    by (rule norm_cdf_enclosure) (simp_all add: power2_eq_square)
  then have lo: "1 / 2 + c * (3 / 20 * (1 - 9 / 2400 + (9 / 800)\<^sup>2 / 10 - (9 / 800) ^ 3 / 42))
                 \<le> norm_cdf (3 / 20)"
    by (simp add: eval_nat_numeral c_def)
  have "norm_cdf (3 / 20)
        \<le> 1 / 2 + 3 / 20 / sqrt (2 * pi)
          * (\<Sum>k<2 * 1 + 1. (- 1) ^ k * (((3 / 20)\<^sup>2 / 2) ^ k / (fact k * real (2 * k + 1))))"
    by (rule norm_cdf_enclosure) (simp_all add: power2_eq_square)
  then have hi: "norm_cdf (3 / 20)
                 \<le> 1 / 2 + c * (3 / 20 * (1 - 9 / 2400 + (9 / 800)\<^sup>2 / 10))"
    by (simp add: eval_nat_numeral c_def)
  show "55961 / 100000 \<le> norm_cdf (3 / 20)"
    using lo c(1) by (simp add: power2_eq_square power3_eq_cube)
  show "norm_cdf (3 / 20) \<le> 55962 / 100000"
    using hi c(2) by (simp add: power2_eq_square power3_eq_cube)
qed

lemma abs_diff_le_from_enclosure:
  fixes x :: real
  assumes "l \<le> x" "x \<le> u" "c - d \<le> l" "u \<le> c + d"
  shows "\<bar>x - c\<bar> \<le> d"
  using assms by linarith

lemma reference_scenario:
  "calculate_greeks ''Call'' 100 100 1 0.2 0.05 =
     Inr \<lparr>Delta = exp (- (1 / 20)) * norm_cdf (7 / 20),
          Gamma = exp (- (1 / 20)) * norm_pdf (7 / 20) / 20,
          Theta = - (10 * (exp (- (1 / 20)) * norm_pdf (7 / 20)))
                  - 5 * (exp (- (1 / 20)) * norm_cdf (3 / 20)) + 5 * norm_cdf (7 / 20),
          Vega = 100 * norm_pdf (7 / 20)\<rparr>"
proof -
  have v: "valid 100 100 1 0.2 0.05"
    by (simp add: valid_def)
  have c: "lower ''Call'' = ''call''"
    by (simp add: lower_def lower_char_def)
  have one: "spec_d1 100 100 1 0.2 0.05 = 7 / 20"
    unfolding spec_d1_def by (simp add: power2_eq_square)
  have two: "spec_d2 100 100 1 0.2 0.05 = 3 / 20"
    unfolding spec_d2_def one by simp
  show ?thesis
    by (simp only: calculate_greeks_valid [OF v] c if_True greeks_of_def T_common_def one two)
      simp
qed

lemma reference_scenario_bounds:
  "60575 / 100000 \<le> exp (- (1 / 20)) * norm_cdf (7 / 20)"
  "exp (- (1 / 20)) * norm_cdf (7 / 20) \<le> 60579 / 100000"
  "35692 / 100000 \<le> exp (- (1 / 20)) * norm_pdf (7 / 20)"
  "exp (- (1 / 20)) * norm_pdf (7 / 20) \<le> 35696 / 100000"
  "53231 / 100000 \<le> exp (- (1 / 20)) * norm_cdf (3 / 20)"
  "exp (- (1 / 20)) * norm_cdf (3 / 20) \<le> 53233 / 100000"
  "37523 / 100000 \<le> norm_pdf (7 / 20)"
  "norm_pdf (7 / 20) \<le> 37525 / 100000"
  "63682 / 100000 \<le> norm_cdf (7 / 20)"
  "norm_cdf (7 / 20) \<le> 63684 / 100000"
proof -
  note e = exp_discount_enclosure
  have "60575 / 100000 \<le> (95122 / 100000) * (63682 / 100000 :: real)"
    by simp
  also have "\<dots> \<le> exp (- (1 / 20)) * norm_cdf (7 / 20)"
    using e(1) norm_cdf_035(1) by (intro mult_mono) simp_all
  finally show "60575 / 100000 \<le> exp (- (1 / 20)) * norm_cdf (7 / 20)" .
  have "exp (- (1 / 20)) * norm_cdf (7 / 20) \<le> (95123 / 100000) * (63684 / 100000 :: real)"
    using e(2) norm_cdf_035 by (intro mult_mono) simp_all
  also have "\<dots> \<le> 60579 / 100000"
    by simp
  finally show "exp (- (1 / 20)) * norm_cdf (7 / 20) \<le> 60579 / 100000" .
  have "35692 / 100000 \<le> (95122 / 100000) * (37523 / 100000 :: real)"
    by simp
  also have "\<dots> \<le> exp (- (1 / 20)) * norm_pdf (7 / 20)"
    using e(1) norm_pdf_035(1) by (intro mult_mono) simp_all
  finally show "35692 / 100000 \<le> exp (- (1 / 20)) * norm_pdf (7 / 20)" .
  have "exp (- (1 / 20)) * norm_pdf (7 / 20) \<le> (95123 / 100000) * (37525 / 100000 :: real)"
    using e(2) norm_pdf_035 by (intro mult_mono) simp_all
  also have "\<dots> \<le> 35696 / 100000"
    by simp
  finally show "exp (- (1 / 20)) * norm_pdf (7 / 20) \<le> 35696 / 100000" .
  have "53231 / 100000 \<le> (95122 / 100000) * (55961 / 100000 :: real)"
    by simp
  also have "\<dots> \<le> exp (- (1 / 20)) * norm_cdf (3 / 20)"
    using e(1) norm_cdf_015(1) by (intro mult_mono) simp_all
  finally show "53231 / 100000 \<le> exp (- (1 / 20)) * norm_cdf (3 / 20)" .
  have "exp (- (1 / 20)) * norm_cdf (3 / 20) \<le> (95123 / 100000) * (55962 / 100000 :: real)"
    using e(2) norm_cdf_015 by (intro mult_mono) simp_all
  also have "\<dots> \<le> 53233 / 100000"
    by simp
  finally show "exp (- (1 / 20)) * norm_cdf (3 / 20) \<le> 53233 / 100000" .
qed (rule norm_pdf_035 norm_cdf_035)+

text \<open>The values of the standard Black-Scholes formulas at the reference scenario:
  \<open>\<Phi>(d1)\<close> for Delta, \<open>\<phi>(d1) / (S sigma sqrt T)\<close> for Gamma,
  \<open>- (S \<phi>(d1) sigma) / (2 sqrt T) - r K exp (- r T) \<Phi>(d2)\<close> for Theta and
  \<open>S sqrt T \<phi>(d1)\<close> for Vega.\<close>

lemma textbook_reference_values:
  "\<bar>norm_cdf (7 / 20) - 0.6368\<bar> \<le> 0.001"
  "\<bar>norm_pdf (7 / 20) / (100 * 0.2 * sqrt 1) - 0.0188\<bar> \<le> 0.001"
  "\<bar>- (100 * norm_pdf (7 / 20) * 0.2) / (2 * sqrt 1)
     - 0.05 * 100 * exp (- 0.05 * 1) * norm_cdf (3 / 20) - (- 6.414)\<bar> \<le> 0.001"
  "\<bar>100 * sqrt 1 * norm_pdf (7 / 20) - 37.52\<bar> \<le> 0.01"
proof -
  define E :: real where "E = exp (- (1 / 20))"
  define P where "P = norm_pdf (7 / 20)"
  define N where "N = norm_cdf (7 / 20)"
  define M where "M = norm_cdf (3 / 20)"
  note b = reference_scenario_bounds [folded E_def P_def N_def M_def]
  have "\<bar>N - 0.6368\<bar> \<le> 0.001"
    using b(9,10) by simp
  then show "\<bar>norm_cdf (7 / 20) - 0.6368\<bar> \<le> 0.001"
    by (simp only: N_def)
  have "\<bar>P / 20 - 0.0188\<bar> \<le> 0.001"
    using b(7,8) by simp
  then show "\<bar>norm_pdf (7 / 20) / (100 * 0.2 * sqrt 1) - 0.0188\<bar> \<le> 0.001"
    by (simp add: P_def)
  have "\<bar>- (10 * P) - 5 * (E * M) - (- 6.414)\<bar> \<le> 0.001"
  proof -
    have "- 64142 / 10000 \<le> - (10 * P) - 5 * (E * M)"
      using b(6,8) by simp
    moreover have "- (10 * P) - 5 * (E * M) \<le> - 64138 / 10000"
      using b(5,7) by simp
    ultimately show ?thesis
      by (rule abs_diff_le_from_enclosure) simp_all
  qed
  then show "\<bar>- (100 * norm_pdf (7 / 20) * 0.2) / (2 * sqrt 1)
     - 0.05 * 100 * exp (- 0.05 * 1) * norm_cdf (3 / 20) - (- 6.414)\<bar> \<le> 0.001"
    by (simp add: P_def E_def M_def mult.assoc)
  have "\<bar>100 * P - 37.52\<bar> \<le> 0.01"
    using b(7,8) by simp
  then show "\<bar>100 * sqrt 1 * norm_pdf (7 / 20) - 37.52\<bar> \<le> 0.01"
    by (simp add: P_def)
qed

subsection \<open>The function with the overflow of the power\<close>

lemma d1_double_no_overflow:
  "\<not> double_overflows (sigma ^ 2) \<Longrightarrow> d1_double S K T sigma r = d1 S K T sigma r"
  by (simp add: d1_double_def d1_def float_pow_def)

lemma calculate_greeks_double_no_overflow:
  "\<not> double_overflows (sigma ^ 2) \<Longrightarrow>
   calculate_greeks_double ot S K T sigma r = calculate_greeks ot S K T sigma r"
  by (simp add: calculate_greeks_double_def calculate_greeks_def d1_double_no_overflow)

lemma double_overflows_1e400: "double_overflows ((10 ^ 200)\<^sup>2)"
proof -
  have "(2::real) ^ 1024 \<le> 2 ^ 1200"
    by (rule power_increasing) simp_all
  also have "\<dots> = (8::real) ^ 400"
    by (simp add: power_mult [symmetric] power_numeral_reduce flip: power_mult)
  also have "\<dots> \<le> (10::real) ^ 400"
    by (rule power_mono) simp_all
  finally have "(2::real) ^ 1024 \<le> (10 ^ 200)\<^sup>2"
    by (simp add: power_mult [symmetric])
  moreover have "(0::real) \<le> 2 ^ 970"
    by simp
  ultimately have "(2::real) ^ 1024 - 2 ^ 970 \<le> \<bar>(10 ^ 200)\<^sup>2\<bar>"
    by linarith
  then show ?thesis
    by (simp only: double_overflows_def)
qed

lemma double_overflows_2_1200: "double_overflows ((2 ^ 600)\<^sup>2)"
proof -
  have "(2::real) ^ 1024 \<le> 2 ^ 1200"
    by (rule power_increasing) simp_all
  also have "\<dots> = (2 ^ 600)\<^sup>2"
    by (simp add: power_mult [symmetric])
  finally have "(2::real) ^ 1024 \<le> (2 ^ 600)\<^sup>2" .
  moreover have "(0::real) \<le> 2 ^ 970"
    by simp
  ultimately have "(2::real) ^ 1024 - 2 ^ 970 \<le> \<bar>(2 ^ 600)\<^sup>2\<bar>"
    by linarith
  then show ?thesis
    by (simp only: double_overflows_def)
qed

section \<open>The claims\<close>

subsection \<open>Formulas\<close>

text \<open>
  Claim C1. For every input with \<open>S > 0\<close>, \<open>K > 0\<close>, \<open>T > 0\<close>, \<open>sigma > 0\<close>, \<open>r \<ge> 0\<close> and an
  option type whose lowered value is \<open>call\<close> (resp. \<open>put\<close>), the function returns a record
  whose Delta is \<open>exp (- r T) \<Phi>(d1)\<close> (resp. \<open>- exp (- r T) \<Phi>(- d1)\<close>), with
  \<open>d1 = (ln (S / K) + (r + 0.5 sigma\<^sup>2) T) / (sigma sqrt T)\<close>.
\<close>

theorem delta_formula:
  assumes "0 < S" "0 < K" "0 < T" "0 < sigma" "0 \<le> r"
  shows "(lower ot = ''call'' \<longrightarrow>
           (\<exists>g. calculate_greeks ot S K T sigma r = Inr g \<and>
                Delta g = exp (- r * T) * norm_cdf (spec_d1 S K T sigma r))) \<and>
         (lower ot = ''put'' \<longrightarrow>
           (\<exists>g. calculate_greeks ot S K T sigma r = Inr g \<and>
                Delta g = - exp (- r * T) * norm_cdf (- spec_d1 S K T sigma r)))"
proof -
  from assms have v: "valid S K T sigma r"
    by (simp add: valid_def)
  show ?thesis
    by (simp add: calculate_greeks_valid [OF v] greeks_of_def)
qed

theorem delta_formula_witness:
  "lower ''Call'' = ''call'' \<and> lower ''PUT'' = ''put'' \<and>
   (\<exists>g. calculate_greeks ''Call'' 100 100 1 (1/5) (1/20) = Inr g \<and>
        Delta g = exp (- (1/20) * 1) * norm_cdf (spec_d1 100 100 1 (1/5) (1/20))) \<and>
   (\<exists>g. calculate_greeks ''PUT'' 100 100 1 (1/5) (1/20) = Inr g \<and>
        Delta g = - exp (- (1/20) * 1) * norm_cdf (- spec_d1 100 100 1 (1/5) (1/20)))"
  using delta_formula [of 100 100 1 "1/5" "1/20" "''Call''"]
    delta_formula [of 100 100 1 "1/5" "1/20" "''PUT''"]
  by (simp add: lower_def lower_char_def)

text \<open>
  Claim C5. For every valid input the function returns Theta equal to
  \<open>T_common + r S \<Phi>(d1)\<close> for a call and \<open>T_common + r S \<Phi>(- d1)\<close> for a put, where
  \<open>T_common = - (S \<phi>(d1) sigma exp (- r T)) / (2 sqrt T) - r K exp (- r T) \<Phi>(d2)\<close> and
  \<open>d2 = d1 - sigma sqrt T\<close>.
\<close>

theorem theta_formula:
  assumes "0 < S" "0 < K" "0 < T" "0 < sigma" "0 \<le> r"
  shows "(lower ot = ''call'' \<longrightarrow>
           (\<exists>g. calculate_greeks ot S K T sigma r = Inr g \<and>
                Theta g = T_common S K T sigma r + r * S * norm_cdf (spec_d1 S K T sigma r))) \<and>
         (lower ot = ''put'' \<longrightarrow>
           (\<exists>g. calculate_greeks ot S K T sigma r = Inr g \<and>
                Theta g = T_common S K T sigma r + r * S * norm_cdf (- spec_d1 S K T sigma r)))"
proof -
  from assms have v: "valid S K T sigma r"
    by (simp add: valid_def)
  show ?thesis
    by (simp add: calculate_greeks_valid [OF v] greeks_of_def)
qed

theorem theta_formula_witness:
  "lower ''Call'' = ''call'' \<and> lower ''put'' = ''put'' \<and>
   (\<exists>g. calculate_greeks ''Call'' 100 100 1 (1/5) (1/20) = Inr g \<and>
        Theta g = T_common 100 100 1 (1/5) (1/20)
                  + (1/20) * 100 * norm_cdf (spec_d1 100 100 1 (1/5) (1/20))) \<and>
   (\<exists>g. calculate_greeks ''put'' 100 100 1 (1/5) (1/20) = Inr g \<and>
        Theta g = T_common 100 100 1 (1/5) (1/20)
                  + (1/20) * 100 * norm_cdf (- spec_d1 100 100 1 (1/5) (1/20)))"
  using theta_formula [of 100 100 1 "1/5" "1/20" "''Call''"]
    theta_formula [of 100 100 1 "1/5" "1/20" "''put''"]
  by (simp add: lower_def lower_char_def)

text \<open>
  Claim C6. For every valid input the function returns Gamma equal to
  \<open>exp (- r T) \<phi>(d1) / (S sigma sqrt T)\<close> and Vega equal to \<open>S sqrt T \<phi>(d1)\<close>, and neither
  depends on the option type: a call and a put with the same numbers have the same Gamma and
  the same Vega.
\<close>

theorem gamma_vega_formula:
  assumes "0 < S" "0 < K" "0 < T" "0 < sigma" "0 \<le> r"
    and "lower otc = ''call''" and "lower otp = ''put''"
  shows "\<exists>gc gp. calculate_greeks otc S K T sigma r = Inr gc \<and>
                 calculate_greeks otp S K T sigma r = Inr gp \<and>
                 Gamma gc = exp (- r * T) * norm_pdf (spec_d1 S K T sigma r) / (S * sigma * sqrt T) \<and>
                 Vega gc = S * sqrt T * norm_pdf (spec_d1 S K T sigma r) \<and>
                 Gamma gp = Gamma gc \<and> Vega gp = Vega gc"
proof -
  from assms have v: "valid S K T sigma r"
    by (simp add: valid_def)
  show ?thesis
    using assms(6,7) by (simp add: calculate_greeks_valid [OF v] greeks_of_def)
qed

theorem gamma_vega_formula_witness:
  "\<exists>gc gp. calculate_greeks ''Call'' 100 100 1 (1/5) (1/20) = Inr gc \<and>
           calculate_greeks ''Put'' 100 100 1 (1/5) (1/20) = Inr gp \<and>
           Gamma gc = exp (- (1/20) * 1) * norm_pdf (spec_d1 100 100 1 (1/5) (1/20))
                      / (100 * (1/5) * sqrt 1) \<and>
           Vega gc = 100 * sqrt 1 * norm_pdf (spec_d1 100 100 1 (1/5) (1/20)) \<and>
           Gamma gp = Gamma gc \<and> Vega gp = Vega gc"
proof -
  have c: "lower ''Call'' = ''call''" and p: "lower ''Put'' = ''put''"
    by (simp_all add: lower_def lower_char_def)
  show ?thesis
    using gamma_vega_formula [of 100 100 1 "1/5" "1/20" "''Call''" "''Put''", OF _ _ _ _ _ c p]
    by simp
qed

text \<open>
  Claim C3. For every \<open>S > 0\<close>, \<open>K > 0\<close>, \<open>T > 0\<close>, \<open>sigma > 0\<close>, \<open>r \<ge> 0\<close>, the Delta returned
  for a call minus the Delta returned for a put with the same numbers is \<open>exp (- r T)\<close>.
\<close>

theorem delta_put_call_parity:
  assumes "0 < S" "0 < K" "0 < T" "0 < sigma" "0 \<le> r"
    and "lower otc = ''call''" and "lower otp = ''put''"
  shows "\<exists>gc gp. calculate_greeks otc S K T sigma r = Inr gc \<and>
                 calculate_greeks otp S K T sigma r = Inr gp \<and>
                 Delta gc - Delta gp = exp (- r * T)"
proof -
  from assms have v: "valid S K T sigma r"
    by (simp add: valid_def)
  show ?thesis
    using assms(6,7)
    by (simp add: calculate_greeks_valid [OF v] greeks_of_def norm_cdf_reflect algebra_simps)
qed

theorem delta_put_call_parity_witness:
  "\<exists>gc gp. calculate_greeks ''Call'' 100 100 1 (1/5) (1/20) = Inr gc \<and>
           calculate_greeks ''Put'' 100 100 1 (1/5) (1/20) = Inr gp \<and>
           Delta gc - Delta gp = exp (- (1/20) * 1)"
proof -
  have c: "lower ''Call'' = ''call''" and p: "lower ''Put'' = ''put''"
    by (simp_all add: lower_def lower_char_def)
  show ?thesis
    using delta_put_call_parity [of 100 100 1 "1/5" "1/20" "''Call''" "''Put''", OF _ _ _ _ _ c p]
    by simp
qed

text \<open>
  Claim C8, as amended. In exact real arithmetic, for every valid input (\<open>S\<close>, \<open>K\<close>, \<open>T\<close>,
  \<open>sigma\<close> positive, \<open>r\<close> non-negative) and recognised option type, the function returns a
  record, so that Delta, Gamma, Theta and Vega are all real numbers, and Gamma and Vega are
  non-negative whatever the option type.
\<close>

theorem greeks_returned_and_signs:
  assumes "0 < S" "0 < K" "0 < T" "0 < sigma" "0 \<le> r"
    and "lower ot = ''call'' \<or> lower ot = ''put''"
  shows "\<exists>g. calculate_greeks ot S K T sigma r = Inr g \<and> 0 \<le> Gamma g \<and> 0 \<le> Vega g"
proof -
  from assms have v: "valid S K T sigma r"
    by (simp add: valid_def)
  have "0 \<le> exp (- r * T) * norm_pdf x / (S * sigma * sqrt T)"
    and "0 \<le> S * sqrt T * norm_pdf x" for x
    using assms(1-4) norm_pdf_pos [of x] by (simp_all add: less_imp_le)
  then show ?thesis
    using assms(6) by (auto simp add: calculate_greeks_valid [OF v] greeks_of_def)
qed

theorem greeks_returned_and_signs_witness:
  "(\<exists>g. calculate_greeks ''Call'' 100 100 1 (1/5) (1/20) = Inr g \<and> 0 \<le> Gamma g \<and> 0 \<le> Vega g) \<and>
   (\<exists>g. calculate_greeks ''put'' 100 100 1 (1/5) 0 = Inr g \<and> 0 \<le> Gamma g \<and> 0 \<le> Vega g)"
  using greeks_returned_and_signs [of 100 100 1 "1/5" "1/20" "''Call''"]
    greeks_returned_and_signs [of 100 100 1 "1/5" 0 "''put''"]
  by (simp add: lower_def lower_char_def)

text \<open>
  Claim C8, as stated, is about the doubles the function computes with. The volatilities
  \<open>2 ^ 600\<close> (a double) and \<open>10 ^ 200\<close> (written \<open>1e200\<close>) pass the validation with
  \<open>S = K = T = 1\<close> and \<open>r = 0\<close>, and \<open>sigma ** 2\<close> at line 24 raises \<open>OverflowError\<close>: a
  valid input and a recognised option type, and no record is returned.
\<close>

theorem greeks_overflow_counterexample:
  "valid 1 1 1 (2 ^ 600) 0 \<and> valid 1 1 1 (10 ^ 200) 0 \<and> lower ''Call'' = ''call'' \<and>
   calculate_greeks_double ''Call'' 1 1 1 (2 ^ 600) 0 = Inl OverflowError \<and>
   calculate_greeks_double ''Call'' 1 1 1 (10 ^ 200) 0 = Inl OverflowError"
proof -
  have "d1_double 1 1 1 (2 ^ 600) 0 = Inl OverflowError"
    using double_overflows_2_1200
    by (simp add: d1_double_def truediv_def math_log_def float_pow_def)
  then have a: "calculate_greeks_double ''Call'' 1 1 1 (2 ^ 600) 0 = Inl OverflowError"
    by (simp add: calculate_greeks_double_def)
  have "d1_double 1 1 1 (10 ^ 200) 0 = Inl OverflowError"
    using double_overflows_1e400
    by (simp add: d1_double_def truediv_def math_log_def float_pow_def)
  then have b: "calculate_greeks_double ''Call'' 1 1 1 (10 ^ 200) 0 = Inl OverflowError"
    by (simp add: calculate_greeks_double_def)
  show ?thesis
    using a b by (simp add: valid_def lower_def lower_char_def)
qed

text \<open>
  Claim C4. \<open>calculate_greeks('Call', 100, 100, 1, 0.2, 0.05)\<close>, the call at the end of the
  source file, is to give Delta near \<open>0.6368\<close>, Gamma near \<open>0.0188\<close>, Theta near \<open>-6.414\<close>
  and Vega near \<open>37.52\<close>, each within \<open>0.01\<close>. These are the values of the standard
  Black-Scholes formulas, which the comment of line 23 announces. The function returns a
  record whose Delta is within \<open>0.001\<close> of \<open>0.6058\<close> and whose Theta is within \<open>0.001\<close> of
  \<open>-3.047\<close>: both are further than \<open>0.01\<close> from the values of the claim.
\<close>

theorem reference_scenario_divergence:
  "\<not> isl (calculate_greeks ''Call'' 100 100 1 0.2 0.05) \<and>
   \<bar>Delta (projr (calculate_greeks ''Call'' 100 100 1 0.2 0.05)) - 0.6058\<bar> \<le> 0.001 \<and>
   \<bar>Theta (projr (calculate_greeks ''Call'' 100 100 1 0.2 0.05)) - (- 3.047)\<bar> \<le> 0.001 \<and>
   0.01 < \<bar>Delta (projr (calculate_greeks ''Call'' 100 100 1 0.2 0.05)) - 0.6368\<bar> \<and>
   0.01 < \<bar>Theta (projr (calculate_greeks ''Call'' 100 100 1 0.2 0.05)) - (- 6.414)\<bar>"
proof -
  define E :: real where "E = exp (- (1 / 20))"
  define P where "P = norm_pdf (7 / 20)"
  define N where "N = norm_cdf (7 / 20)"
  define M where "M = norm_cdf (3 / 20)"
  note b = reference_scenario_bounds [folded E_def P_def N_def M_def]
  have lo: "- 30472 / 10000 \<le> - (10 * (E * P)) - 5 * (E * M) + 5 * N"
    using b(4,6,9) by simp
  have hi: "- (10 * (E * P)) - 5 * (E * M) + 5 * N \<le> - 30465 / 10000"
    using b(3,5,10) by simp
  have "\<bar>E * N - 0.6058\<bar> \<le> 0.001"
    using b(1,2) by simp
  moreover have "\<bar>- (10 * (E * P)) - 5 * (E * M) + 5 * N - (- 3.047)\<bar> \<le> 0.001"
    using lo hi by (rule abs_diff_le_from_enclosure) simp_all
  moreover have "0.01 < \<bar>E * N - 0.6368\<bar>"
    using b(1,2) by simp
  moreover have "0.01 < \<bar>- (10 * (E * P)) - 5 * (E * M) + 5 * N - (- 6.414)\<bar>"
    using lo by simp
  ultimately show ?thesis
    unfolding reference_scenario E_def P_def N_def M_def by simp
qed

subsection \<open>Errors\<close>

text \<open>
  Claim C2, as amended. The function fails with the parameter error if and only if
  \<open>S \<le> 0\<close> or \<open>K \<le> 0\<close> or \<open>T \<le> 0\<close> or \<open>sigma \<le> 0\<close> or \<open>r < 0\<close>. The failure comes before any
  formula is evaluated: no input at all ends in the \<open>ZeroDivisionError\<close> or in the domain
  error that the division, \<open>math.log\<close> and \<open>math.sqrt\<close> raise on the rejected numbers. The
  message of the error is \<open>All input values must be positive.\<close>
\<close>

theorem invalid_parameter_iff:
  "(calculate_greeks ot S K T sigma r = Inl InvalidParameter
      \<longleftrightarrow> S \<le> 0 \<or> K \<le> 0 \<or> T \<le> 0 \<or> sigma \<le> 0 \<or> r < 0) \<and>
   calculate_greeks ot S K T sigma r \<noteq> Inl ZeroDivisionError \<and>
   calculate_greeks ot S K T sigma r \<noteq> Inl (ValueError ''math domain error'') \<and>
   InvalidParameter = ValueError ''All input values must be positive.''"
proof (cases "valid S K T sigma r")
  case True
  then have "\<not> (S \<le> 0 \<or> K \<le> 0 \<or> T \<le> 0 \<or> sigma \<le> 0 \<or> r < 0)"
    by (auto simp add: valid_def)
  then show ?thesis
    using errors_distinct
    by (simp add: calculate_greeks_valid [OF True] InvalidParameter_def InvalidOptionType_def)
next
  case False
  then have "S \<le> 0 \<or> K \<le> 0 \<or> T \<le> 0 \<or> sigma \<le> 0 \<or> r < 0"
    by (auto simp add: valid_def)
  then show ?thesis
    by (simp add: calculate_greeks_invalid [OF False] InvalidParameter_def)
qed

theorem invalid_parameter_iff_witness:
  "calculate_greeks ''Call'' 100 0 1 (1/5) (1/20) = Inl InvalidParameter \<and>
   calculate_greeks ''Call'' 100 100 1 (1/5) 0 \<noteq> Inl InvalidParameter"
  using invalid_parameter_iff [of "''Call''" 100 0 1 "1/5" "1/20"]
    invalid_parameter_iff [of "''Call''" 100 100 1 "1/5" 0]
  by simp

text \<open>
  Claim C2, as stated, also says that the message of the error identifies that the rate must
  be non-negative. With a negative rate and every other number valid, the message is
  \<open>All input values must be positive.\<close>, which names neither the rate nor non-negativity.
\<close>

theorem invalid_parameter_message_counterexample:
  "calculate_greeks ''Call'' 100 100 1 (1/5) (- 1)
     = Inl (ValueError ''All input values must be positive.'') \<and>
   \<not> sublist ''negative'' ''All input values must be positive.'' \<and>
   \<not> sublist ''rate'' ''All input values must be positive.''"
  by (simp add: calculate_greeks_def sublist_Cons_right)



text \<open>
  Claim C9. For every tuple of numbers, option types that differ in letter case only (they
  have the same lowered string) give the same result: the same record or the same error.
\<close>

theorem option_type_case_insensitive:
  assumes "lower s1 = lower s2"
  shows "calculate_greeks s1 S K T sigma r = calculate_greeks s2 S K T sigma r"
proof (cases "valid S K T sigma r")
  case True
  then show ?thesis
    using assms by (simp add: calculate_greeks_valid)
next
  case False
  then show ?thesis
    by (simp add: calculate_greeks_invalid)
qed

theorem option_type_case_insensitive_witness:
  "lower ''CALL'' = lower ''call'' \<and> lower ''Call'' = lower ''call'' \<and>
   calculate_greeks ''CALL'' 100 100 1 (1/5) (1/20)
     = calculate_greeks ''call'' 100 100 1 (1/5) (1/20) \<and>
   calculate_greeks ''Call'' 100 100 0 (1/5) (1/20)
     = calculate_greeks ''call'' 100 100 0 (1/5) (1/20)"
proof -
  have a: "lower ''CALL'' = lower ''call''" and b: "lower ''Call'' = lower ''call''"
    by (simp_all add: lower_def lower_char_def)
  show ?thesis
    using a b option_type_case_insensitive [OF a, of 100 100 1 "1/5" "1/20"]
      option_type_case_insensitive [OF b, of 100 100 0 "1/5" "1/20"]
    by simp
qed

text \<open>
  Claim C10. The numeric validation comes first: when a numeric constraint is violated and
  the option type is unrecognised too, the function fails with the parameter error and not
  with the option-type error.
\<close>

theorem parameter_error_first:
  assumes "S \<le> 0 \<or> K \<le> 0 \<or> T \<le> 0 \<or> sigma \<le> 0 \<or> r < 0"
    and "lower ot \<noteq> ''call''" and "lower ot \<noteq> ''put''"
  shows "calculate_greeks ot S K T sigma r = Inl InvalidParameter \<and>
         calculate_greeks ot S K T sigma r \<noteq> Inl InvalidOptionType"
proof -
  from assms(1) have "\<not> valid S K T sigma r"
    by (auto simp add: valid_def)
  then show ?thesis
    using errors_distinct by (simp add: calculate_greeks_invalid)
qed

theorem parameter_error_first_witness:
  "lower ''Straddle'' \<noteq> ''call'' \<and> lower ''Straddle'' \<noteq> ''put'' \<and>
   calculate_greeks ''Straddle'' 100 100 0 (1/5) (1/20) = Inl InvalidParameter \<and>
   calculate_greeks ''Straddle'' 100 100 0 (1/5) (1/20) \<noteq> Inl InvalidOptionType"
  using parameter_error_first [of 100 100 0 "1/5" "1/20" "''Straddle''"]
  by (auto simp add: lower_def lower_char_def)

end
